theory Spec2Isabelle
  imports Complex_Main "HOL-Library.Sublist"
begin

section \<open>JavaScript values of the relay\<close>

text \<open>
  The relay endpoint \<^verbatim>\<open>POST /predict-stats\<close> of \<^verbatim>\<open>server.js\<close> works on values
  parsed from JSON: the request body \<^verbatim>\<open>playerData\<close> and the body of the prediction
  service's answer. A parsed JSON value is \<^verbatim>\<open>null\<close>, a boolean, a number, a string,
  an array or a plain object; \<^verbatim>\<open>undefined\<close> is what reading a missing property gives.

  Numbers. The numbers of the model are the integers, the two infinities and NaN. On
  integers up to \<^verbatim>\<open>2^53\<close> the arithmetic of IEEE doubles is exact, and so is the
  model; fractional JSON numbers and the rounding of doubles are outside the model.
  Negative zero is identified with zero (nothing in the endpoint tells them apart).
  The result of converting a string to a number, and of a division, may be fractional:
  such intermediate results are values of \<open>numval\<close>, over the rationals.

  Strings are sequences of code units below 256 (Latin-1), one \<open>char\<close> each.
\<close>

datatype jsnum = NaN | NegInf | PosInf | Fin int

datatype jsval =
    JUndefined
  | JNull
  | JBool bool
  | JNum jsnum
  | JStr string
  | JArr "jsval list"
  | JObj "(string \<times> jsval) list"

text \<open>The primitive values, as \<^verbatim>\<open>ToPrimitive\<close> returns them.\<close>

datatype prim = PUndefined | PNull | PBool bool | PNum jsnum | PStr string

text \<open>Results of \<^verbatim>\<open>ToNumber\<close> and of division.\<close>

datatype numval = NotANumber | MinusInf | PlusInf | Val rat

text \<open>
  What a \<^verbatim>\<open>try\<close> block can catch in the endpoint: a \<^verbatim>\<open>TypeError\<close> raised by the
  language itself, or the rejection of \<^verbatim>\<open>axios.post\<close>. An axios error carries
  \<^verbatim>\<open>error.response\<close> (here its status and its data) when the service answered with an
  error status, \<^verbatim>\<open>error.request\<close> only when no answer was received, and neither when
  the request could not be set up.
\<close>

datatype axios_error =
    WithResponse nat jsval
  | NoResponse
  | SetupFailed

datatype thrown = TypeError | AxiosError axios_error

definition bindE :: "thrown + 'a \<Rightarrow> ('a \<Rightarrow> thrown + 'b) \<Rightarrow> thrown + 'b" where
  "bindE r f = (case r of Inl e \<Rightarrow> Inl e | Inr x \<Rightarrow> f x)"

subsection \<open>Property reads, truthiness\<close>

text \<open>
  \<^verbatim>\<open>o.k\<close> on a parsed JSON value, for the property names the endpoint reads
  (\<^verbatim>\<open>age\<close>, \<^verbatim>\<open>pace\<close>, \<^verbatim>\<open>prediction\<close>, \<^verbatim>\<open>error\<close>, ...): none of them is a property of
  a prototype, so the read gives the object's own property or \<^verbatim>\<open>undefined\<close>. Reading a
  property of \<^verbatim>\<open>undefined\<close> or \<^verbatim>\<open>null\<close> raises a TypeError. An object is the list
  of its properties, each key once, as \<^verbatim>\<open>JSON.parse\<close> leaves them.
\<close>

fun own_prop :: "jsval \<Rightarrow> string \<Rightarrow> jsval" where
  "own_prop (JObj kvs) k = (case map_of kvs k of Some v \<Rightarrow> v | None \<Rightarrow> JUndefined)"
| "own_prop _ k = JUndefined"

fun get_prop :: "jsval \<Rightarrow> string \<Rightarrow> thrown + jsval" where
  "get_prop JUndefined k = Inl TypeError"
| "get_prop JNull k = Inl TypeError"
| "get_prop v k = Inr (own_prop v k)"

fun ToBoolean :: "jsval \<Rightarrow> bool" where
  "ToBoolean JUndefined = False"
| "ToBoolean JNull = False"
| "ToBoolean (JBool b) = b"
| "ToBoolean (JNum n) = (n \<noteq> NaN \<and> n \<noteq> Fin 0)"
| "ToBoolean (JStr s) = (s \<noteq> [])"
| "ToBoolean (JArr vs) = True"
| "ToBoolean (JObj kvs) = True"

text \<open>\<^verbatim>\<open>a || b\<close>, for operands whose evaluation has no effect.\<close>

definition js_or :: "jsval \<Rightarrow> jsval \<Rightarrow> jsval" where
  "js_or a b = (if ToBoolean a then a else b)"

subsection \<open>Conversion to strings and to primitives\<close>

definition digit_char :: "nat \<Rightarrow> char" where
  "digit_char d = ''0123456789'' ! d"

fun nat_digits :: "nat \<Rightarrow> string" where
  "nat_digits n =
     (if n < 10 then [digit_char n] else nat_digits (n div 10) @ [digit_char (n mod 10)])"

declare nat_digits.simps [simp del]

text \<open>
  \<^verbatim>\<open>Number::toString\<close> on the numbers of the model: all the digits of an integer. (From
  \<^verbatim>\<open>10^21\<close> on JavaScript prints an exponent; such integers are beyond the exact range
  of the model.)
\<close>

fun NumberToString :: "jsnum \<Rightarrow> string" where
  "NumberToString NaN = ''NaN''"
| "NumberToString PosInf = ''Infinity''"
| "NumberToString NegInf = ''-Infinity''"
| "NumberToString (Fin i) =
     (if i < 0 then CHR ''-'' # nat_digits (nat (- i)) else nat_digits (nat i))"

text \<open>
  \<^verbatim>\<open>ToString\<close> of any parsed JSON value. A plain object has no callable property of its
  own, so an own property \<^verbatim>\<open>toString\<close> hides \<^verbatim>\<open>Object.prototype.toString\<close> and the
  conversion raises a TypeError (an own \<^verbatim>\<open>valueOf\<close> is skipped likewise, and the
  inherited one returns the object, which is no primitive); otherwise the result is
  \<^verbatim>\<open>[object Object]\<close>. An array converts by \<^verbatim>\<open>join\<close>: the elements' strings separated
  by commas, \<^verbatim>\<open>undefined\<close> and \<^verbatim>\<open>null\<close> giving the empty string.
\<close>

fun ToString :: "jsval \<Rightarrow> thrown + string"
  and join :: "jsval list \<Rightarrow> thrown + string" where
  "ToString JUndefined = Inr ''undefined''"
| "ToString JNull = Inr ''null''"
| "ToString (JBool b) = Inr (if b then ''true'' else ''false'')"
| "ToString (JNum n) = Inr (NumberToString n)"
| "ToString (JStr s) = Inr s"
| "ToString (JArr vs) = join vs"
| "ToString (JObj kvs) =
     (if ''toString'' \<in> set (map fst kvs) then Inl TypeError else Inr ''[object Object]'')"
| "join [] = Inr []"
| "join (v # vs) =
     (case (if v = JUndefined \<or> v = JNull then Inr [] else ToString v) of
        Inl e \<Rightarrow> Inl e
      | Inr s \<Rightarrow>
          (if vs = [] then Inr s
           else (case join vs of Inl e \<Rightarrow> Inl e | Inr t \<Rightarrow> Inr (s @ '','' @ t))))"

fun ToPrimitive :: "jsval \<Rightarrow> thrown + prim" where
  "ToPrimitive JUndefined = Inr PUndefined"
| "ToPrimitive JNull = Inr PNull"
| "ToPrimitive (JBool b) = Inr (PBool b)"
| "ToPrimitive (JNum n) = Inr (PNum n)"
| "ToPrimitive (JStr s) = Inr (PStr s)"
| "ToPrimitive v = bindE (ToString v) (\<lambda>s. Inr (PStr s))"

fun prim_to_string :: "prim \<Rightarrow> string" where
  "prim_to_string PUndefined = ''undefined''"
| "prim_to_string PNull = ''null''"
| "prim_to_string (PBool b) = (if b then ''true'' else ''false'')"
| "prim_to_string (PNum n) = NumberToString n"
| "prim_to_string (PStr s) = s"

subsection \<open>Conversion of strings to numbers\<close>

text \<open>
  \<^verbatim>\<open>StringToNumber\<close> follows the grammar \<^verbatim>\<open>StringNumericLiteral\<close>: white space around
  the literal is dropped; the empty string is 0; a literal is \<^verbatim>\<open>0x\<close>, \<^verbatim>\<open>0o\<close> or
  \<^verbatim>\<open>0b\<close> with digits of that base, or an optional sign before \<^verbatim>\<open>Infinity\<close> or a
  decimal literal (digits, an optional fraction, an optional exponent); anything else is
  NaN. The value is exact: the code rounds it to the nearest double, so a literal with
  more digits than a double holds (\<^verbatim>\<open>69.99999999999999999999\<close>, which the code reads
  as 70) is read more finely by the model than by the code. Integers of up to 15 digits
  are read alike.
\<close>

definition is_ws :: "char \<Rightarrow> bool" where
  "is_ws c = ((of_char c :: nat) \<in> set [9, 10, 11, 12, 13, 32, 160])"

definition trim :: "string \<Rightarrow> string" where
  "trim s = rev (dropWhile is_ws (rev (dropWhile is_ws s)))"

definition digit_value :: "char \<Rightarrow> nat option" where
  "digit_value c =
     (let n = (of_char c :: nat) in
      if 48 \<le> n \<and> n \<le> 57 then Some (n - 48)
      else if 97 \<le> n \<and> n \<le> 102 then Some (n - 87)
      else if 65 \<le> n \<and> n \<le> 70 then Some (n - 55)
      else None)"

definition is_digit :: "nat \<Rightarrow> char \<Rightarrow> bool" where
  "is_digit base c = (case digit_value c of Some d \<Rightarrow> d < base | None \<Rightarrow> False)"

definition digits_value :: "nat \<Rightarrow> string \<Rightarrow> nat" where
  "digits_value base cs =
     foldl (\<lambda>a c. a * base + (case digit_value c of Some d \<Rightarrow> d | None \<Rightarrow> 0)) 0 cs"

text \<open>\<^verbatim>\<open>DecimalDigits\<close> to the end of the string, in a given base.\<close>

definition all_digits :: "nat \<Rightarrow> string \<Rightarrow> nat option" where
  "all_digits base cs =
     (if cs \<noteq> [] \<and> list_all (is_digit base) cs then Some (digits_value base cs) else None)"

text \<open>\<^verbatim>\<open>ExponentPart\<close> to the end of the string (the empty string: no exponent).\<close>

fun exponent_part :: "string \<Rightarrow> int option" where
  "exponent_part [] = Some 0"
| "exponent_part (c # cs) =
     (if c = CHR ''e'' \<or> c = CHR ''E'' then
        (case cs of
           d # ds \<Rightarrow>
             (if d = CHR ''+'' then map_option int (all_digits 10 ds)
              else if d = CHR ''-'' then map_option (\<lambda>n. - int n) (all_digits 10 ds)
              else map_option int (all_digits 10 cs))
         | [] \<Rightarrow> None)
      else None)"

definition scale10 :: "rat \<Rightarrow> int \<Rightarrow> rat" where
  "scale10 m e = (if 0 \<le> e then m * 10 ^ nat e else m / 10 ^ nat (- e))"

text \<open>\<^verbatim>\<open>StrUnsignedDecimalLiteral\<close> other than \<^verbatim>\<open>Infinity\<close>.\<close>

definition unsigned_decimal :: "string \<Rightarrow> rat option" where
  "unsigned_decimal cs =
     (let ip = takeWhile (is_digit 10) cs;
          r1 = dropWhile (is_digit 10) cs;
          fp = (case r1 of c # r \<Rightarrow> if c = CHR ''.'' then takeWhile (is_digit 10) r else []
                | [] \<Rightarrow> []);
          r2 = (case r1 of c # r \<Rightarrow> if c = CHR ''.'' then dropWhile (is_digit 10) r else r1
                | [] \<Rightarrow> [])
      in if ip = [] \<and> fp = [] then None
         else (case exponent_part r2 of
                 None \<Rightarrow> None
               | Some e \<Rightarrow>
                   Some (scale10 (of_nat (digits_value 10 ip)
                           + of_nat (digits_value 10 fp) / 10 ^ length fp) e)))"

definition signed_decimal :: "string \<Rightarrow> numval" where
  "signed_decimal cs =
     (let neg = (cs \<noteq> [] \<and> hd cs = CHR ''-'');
          u = (if cs \<noteq> [] \<and> (hd cs = CHR ''+'' \<or> hd cs = CHR ''-'') then tl cs else cs)
      in if u = ''Infinity'' then (if neg then MinusInf else PlusInf)
         else (case unsigned_decimal u of
                 None \<Rightarrow> NotANumber
               | Some q \<Rightarrow> Val (if neg then - q else q)))"

definition non_decimal :: "string \<Rightarrow> nat option" where
  "non_decimal cs =
     (case cs of
        z # x # ds \<Rightarrow>
          (if z \<noteq> CHR ''0'' then None
           else if x = CHR ''x'' \<or> x = CHR ''X'' then all_digits 16 ds
           else if x = CHR ''o'' \<or> x = CHR ''O'' then all_digits 8 ds
           else if x = CHR ''b'' \<or> x = CHR ''B'' then all_digits 2 ds
           else None)
      | _ \<Rightarrow> None)"

definition StringToNumber :: "string \<Rightarrow> numval" where
  "StringToNumber s =
     (let t = trim s
      in if t = [] then Val 0
         else (case non_decimal t of
                 Some n \<Rightarrow> Val (of_nat n)
               | None \<Rightarrow> signed_decimal t))"

fun of_jsnum :: "jsnum \<Rightarrow> numval" where
  "of_jsnum NaN = NotANumber"
| "of_jsnum NegInf = MinusInf"
| "of_jsnum PosInf = PlusInf"
| "of_jsnum (Fin i) = Val (of_int i)"

fun ToNumber :: "prim \<Rightarrow> numval" where
  "ToNumber PUndefined = NotANumber"
| "ToNumber PNull = Val 0"
| "ToNumber (PBool b) = Val (if b then 1 else 0)"
| "ToNumber (PNum n) = of_jsnum n"
| "ToNumber (PStr s) = StringToNumber s"

subsection \<open>Comparison, addition, division, rounding\<close>

fun num_lt :: "numval \<Rightarrow> numval \<Rightarrow> bool" where
  "num_lt NotANumber y = False"
| "num_lt x NotANumber = False"
| "num_lt x MinusInf = False"
| "num_lt MinusInf y = True"
| "num_lt PlusInf y = False"
| "num_lt (Val a) PlusInf = True"
| "num_lt (Val a) (Val b) = (a < b)"

text \<open>Strings compare by code units; a proper prefix is smaller.\<close>

fun str_lt :: "string \<Rightarrow> string \<Rightarrow> bool" where
  "str_lt s [] = False"
| "str_lt [] (d # ds) = True"
| "str_lt (c # cs) (d # ds) =
     (if c = d then str_lt cs ds else (of_char c :: nat) < of_char d)"

fun prim_lt :: "prim \<Rightarrow> prim \<Rightarrow> bool" where
  "prim_lt (PStr s) (PStr t) = str_lt s t"
| "prim_lt x y = num_lt (ToNumber x) (ToNumber y)"

text \<open>
  \<^verbatim>\<open>a < b\<close> and \<^verbatim>\<open>a > b\<close>: both operands are converted to primitives, the left one
  first; an undefined comparison (a NaN operand) is false.
\<close>

definition js_lt :: "jsval \<Rightarrow> jsval \<Rightarrow> thrown + bool" where
  "js_lt a b =
     bindE (ToPrimitive a) (\<lambda>pa. bindE (ToPrimitive b) (\<lambda>pb. Inr (prim_lt pa pb)))"

definition js_gt :: "jsval \<Rightarrow> jsval \<Rightarrow> thrown + bool" where
  "js_gt a b =
     bindE (ToPrimitive a) (\<lambda>pa. bindE (ToPrimitive b) (\<lambda>pb. Inr (prim_lt pb pa)))"

text \<open>
  The sum of two numbers. On integers it is the exact sum, which is the sum of the
  doubles as long as it stays within \<^verbatim>\<open>2^53\<close>; beyond that the code rounds and the
  model does not.
\<close>

fun num_add :: "jsnum \<Rightarrow> jsnum \<Rightarrow> jsnum" where
  "num_add NaN y = NaN"
| "num_add x NaN = NaN"
| "num_add PosInf NegInf = NaN"
| "num_add NegInf PosInf = NaN"
| "num_add PosInf y = PosInf"
| "num_add NegInf y = NegInf"
| "num_add (Fin a) PosInf = PosInf"
| "num_add (Fin a) NegInf = NegInf"
| "num_add (Fin a) (Fin b) = Fin (a + b)"

text \<open>\<^verbatim>\<open>ToNumber\<close> of the primitives that are not strings.\<close>

fun number_of_prim :: "prim \<Rightarrow> jsnum option" where
  "number_of_prim PUndefined = Some NaN"
| "number_of_prim PNull = Some (Fin 0)"
| "number_of_prim (PBool b) = Some (Fin (if b then 1 else 0))"
| "number_of_prim (PNum n) = Some n"
| "number_of_prim (PStr s) = None"

text \<open>
  \<^verbatim>\<open>a + b\<close>: when either primitive is a string the result is the concatenation of
  both operands' strings, otherwise the sum of their numbers.
\<close>

definition add_prims :: "prim \<Rightarrow> prim \<Rightarrow> jsval" where
  "add_prims pa pb =
     (case (number_of_prim pa, number_of_prim pb) of
        (Some x, Some y) \<Rightarrow> JNum (num_add x y)
      | _ \<Rightarrow> JStr (prim_to_string pa @ prim_to_string pb))"

definition js_add :: "jsval \<Rightarrow> jsval \<Rightarrow> thrown + jsval" where
  "js_add a b =
     bindE (ToPrimitive a) (\<lambda>pa. bindE (ToPrimitive b) (\<lambda>pb. Inr (add_prims pa pb)))"

text \<open>\<^verbatim>\<open>x / d\<close> for a positive finite constant \<open>d\<close> (the endpoint divides by 6).\<close>

fun div_const :: "numval \<Rightarrow> rat \<Rightarrow> numval" where
  "div_const (Val q) d = Val (q / d)"
| "div_const x d = x"

definition js_div_const :: "jsval \<Rightarrow> rat \<Rightarrow> thrown + numval" where
  "js_div_const a d = bindE (ToPrimitive a) (\<lambda>pa. Inr (div_const (ToNumber pa) d))"

text \<open>\<^verbatim>\<open>Math.round\<close>: the nearest integer, a tie going up.\<close>

fun Math_round :: "numval \<Rightarrow> jsnum" where
  "Math_round NotANumber = NaN"
| "Math_round MinusInf = NegInf"
| "Math_round PlusInf = PosInf"
| "Math_round (Val q) = Fin \<lfloor>q + 1 / 2\<rfloor>"

subsection \<open>Strings: lower case and substring search\<close>

definition upper_letters :: string where
  "upper_letters = ''ABCDEFGHIJKLMNOPQRSTUVWXYZ'' @
     [CHR 0xC0, CHR 0xC1, CHR 0xC2, CHR 0xC3, CHR 0xC4, CHR 0xC5, CHR 0xC6, CHR 0xC7,
      CHR 0xC8, CHR 0xC9, CHR 0xCA, CHR 0xCB, CHR 0xCC, CHR 0xCD, CHR 0xCE, CHR 0xCF,
      CHR 0xD0, CHR 0xD1, CHR 0xD2, CHR 0xD3, CHR 0xD4, CHR 0xD5, CHR 0xD6,
      CHR 0xD8, CHR 0xD9, CHR 0xDA, CHR 0xDB, CHR 0xDC, CHR 0xDD, CHR 0xDE]"

definition lower_letters :: string where
  "lower_letters = ''abcdefghijklmnopqrstuvwxyz'' @
     [CHR 0xE0, CHR 0xE1, CHR 0xE2, CHR 0xE3, CHR 0xE4, CHR 0xE5, CHR 0xE6, CHR 0xE7,
      CHR 0xE8, CHR 0xE9, CHR 0xEA, CHR 0xEB, CHR 0xEC, CHR 0xED, CHR 0xEE, CHR 0xEF,
      CHR 0xF0, CHR 0xF1, CHR 0xF2, CHR 0xF3, CHR 0xF4, CHR 0xF5, CHR 0xF6,
      CHR 0xF8, CHR 0xF9, CHR 0xFA, CHR 0xFB, CHR 0xFC, CHR 0xFD, CHR 0xFE]"

definition lower_char :: "char \<Rightarrow> char" where
  "lower_char c = (case map_of (zip upper_letters lower_letters) c of Some l \<Rightarrow> l | None \<Rightarrow> c)"

definition toLowerCase :: "string \<Rightarrow> string" where
  "toLowerCase s = map lower_char s"

fun starts_with :: "string \<Rightarrow> string \<Rightarrow> bool" where
  "starts_with s [] = True"
| "starts_with [] (d # ds) = False"
| "starts_with (c # cs) (d # ds) = (c = d \<and> starts_with cs ds)"

text \<open>\<^verbatim>\<open>s.includes(t)\<close>: \<open>t\<close> occurs at some position of \<open>s\<close>.\<close>

fun str_includes :: "string \<Rightarrow> string \<Rightarrow> bool" where
  "str_includes [] t = (t = [])"
| "str_includes (c # cs) t = (starts_with (c # cs) t \<or> str_includes cs t)"

section \<open>The endpoint \<^verbatim>\<open>POST /predict-stats\<close>\<close>

subsection \<open>Normalization: the object \<^verbatim>\<open>mapped\<close>\<close>

text \<open>The object literal \<^verbatim>\<open>mapped\<close>: twelve properties, in this order.\<close>

record NormalizedFeatures =
  age :: jsval
  weight_kg :: jsval
  potential :: jsval
  skill_moves :: jsval
  work_rate :: jsval
  body_type :: jsval
  pace :: jsval
  shooting :: jsval
  passing :: jsval
  defending :: jsval
  physic :: jsval
  player_traits :: jsval

text \<open>The properties of \<^verbatim>\<open>mapped\<close>, as the object that is posted to the service.\<close>

definition properties :: "NormalizedFeatures \<Rightarrow> (string \<times> jsval) list" where
  "properties m =
     [(''age'', age m), (''weight_kg'', weight_kg m), (''potential'', potential m),
      (''skill_moves'', skill_moves m), (''work_rate'', work_rate m),
      (''body_type'', body_type m), (''pace'', pace m), (''shooting'', shooting m),
      (''passing'', passing m), (''defending'', defending m), (''physic'', physic m),
      (''player_traits'', player_traits m)]"

text \<open>\<^verbatim>\<open>x !== undefined ? x : d\<close>\<close>

definition if_defined :: "jsval \<Rightarrow> jsval \<Rightarrow> jsval" where
  "if_defined x d = (if x \<noteq> JUndefined then x else d)"

text \<open>
  \<^verbatim>\<open>Math.round(((playerData.pace||0) + (playerData.shooting||0) + (playerData.passing||0)
  + (playerData.dribbling||0) + (playerData.defending||0) + (playerData.physic||0)) / 6) || 0\<close>
\<close>

definition estimate_potential :: "jsval \<Rightarrow> thrown + jsval" where
  "estimate_potential playerData =
     bindE (js_add (js_or (own_prop playerData ''pace'') (JNum (Fin 0)))
                   (js_or (own_prop playerData ''shooting'') (JNum (Fin 0)))) (\<lambda>s1.
     bindE (js_add s1 (js_or (own_prop playerData ''passing'') (JNum (Fin 0)))) (\<lambda>s2.
     bindE (js_add s2 (js_or (own_prop playerData ''dribbling'') (JNum (Fin 0)))) (\<lambda>s3.
     bindE (js_add s3 (js_or (own_prop playerData ''defending'') (JNum (Fin 0)))) (\<lambda>s4.
     bindE (js_add s4 (js_or (own_prop playerData ''physic'') (JNum (Fin 0)))) (\<lambda>s5.
     bindE (js_div_const s5 6) (\<lambda>q.
     Inr (js_or (JNum (Math_round q)) (JNum (Fin 0)))))))))"

text \<open>
  Lines 26 to 41 of \<^verbatim>\<open>server.js\<close>. The first property read raises a TypeError when
  the body is \<^verbatim>\<open>undefined\<close> or \<^verbatim>\<open>null\<close>; of the twelve initialisers only that of
  \<^verbatim>\<open>potential\<close> can raise (an addition converts its operands to primitives).
\<close>

definition normalize :: "jsval \<Rightarrow> thrown + NormalizedFeatures" where
  "normalize playerData =
     bindE (get_prop playerData ''age'') (\<lambda>a.
     bindE (if own_prop playerData ''potential'' \<noteq> JUndefined
            then Inr (own_prop playerData ''potential'')
            else estimate_potential playerData) (\<lambda>p.
     Inr \<lparr> age = if_defined a (JNum (Fin 0)),
           weight_kg = if_defined (own_prop playerData ''weight_kg'')
                         (js_or (own_prop playerData ''weight'') (JNum (Fin 0))),
           potential = p,
           skill_moves = if_defined (own_prop playerData ''skill_moves'')
                           (if_defined (own_prop playerData ''dribbling'') (JNum (Fin 0))),
           work_rate = js_or (own_prop playerData ''work_rate'') (JStr ''Unknown_Category''),
           body_type = js_or (own_prop playerData ''body_type'') (JStr ''Unknown_Category''),
           pace = if_defined (own_prop playerData ''pace'') (JNum (Fin 0)),
           shooting = if_defined (own_prop playerData ''shooting'') (JNum (Fin 0)),
           passing = if_defined (own_prop playerData ''passing'') (JNum (Fin 0)),
           defending = if_defined (own_prop playerData ''defending'') (JNum (Fin 0)),
           physic = if_defined (own_prop playerData ''physic'') (JNum (Fin 0)),
           player_traits = js_or (own_prop playerData ''player_traits'') (JStr []) \<rparr>))"

subsection \<open>The answer of the service\<close>

text \<open>Lines 48 to 51: \<^verbatim>\<open>pythonData\<close>, \<^verbatim>\<open>prediction\<close>, \<^verbatim>\<open>message\<close>, \<^verbatim>\<open>overall_calc\<close>.\<close>

definition pythonData :: "jsval \<Rightarrow> jsval" where
  "pythonData d = (if ToBoolean d then d else JObj [])"

definition prediction :: "jsval \<Rightarrow> jsval" where
  "prediction d =
     (if own_prop (pythonData d) ''prediction'' \<noteq> JUndefined
      then own_prop (pythonData d) ''prediction''
      else js_or (own_prop (pythonData d) ''response'') JNull)"

definition message :: "jsval \<Rightarrow> jsval" where
  "message d = js_or (own_prop (pythonData d) ''message'') JNull"

definition overall_calc :: "jsval \<Rightarrow> jsval" where
  "overall_calc d = if_defined (own_prop (pythonData d) ''overall_calculated'') JNull"

subsection \<open>Reasons\<close>

text \<open>
  \<^verbatim>\<open>mapped.f !== undefined && mapped.f < k\<close>, the same with \<^verbatim>\<open>>\<close>, and
  \<^verbatim>\<open>mapped.body_type && String(mapped.body_type).toLowerCase().includes('fat')\<close>.
\<close>

definition defined_and_lt :: "jsval \<Rightarrow> int \<Rightarrow> thrown + bool" where
  "defined_and_lt v k = (if v \<noteq> JUndefined then js_lt v (JNum (Fin k)) else Inr False)"

definition defined_and_gt :: "jsval \<Rightarrow> int \<Rightarrow> thrown + bool" where
  "defined_and_gt v k = (if v \<noteq> JUndefined then js_gt v (JNum (Fin k)) else Inr False)"

definition mentions_fat :: "jsval \<Rightarrow> thrown + bool" where
  "mentions_fat v =
     (if ToBoolean v
      then bindE (ToString v) (\<lambda>s. Inr (str_includes (toLowerCase s) ''fat''))
      else Inr False)"

text \<open>\<^verbatim>\<open>if (cond) reasons.push(text)\<close>: the list after the statement.\<close>

definition push_if :: "thrown + bool \<Rightarrow> string \<Rightarrow> string list \<Rightarrow> thrown + string list" where
  "push_if cond reason reasons =
     bindE cond (\<lambda>b. Inr (if b then reasons @ [reason] else reasons))"

definition fallback_reason :: string where
  "fallback_reason =
     ''No single weak area detected; overall stats may be below model threshold''"

text \<open>The body of the inner \<^verbatim>\<open>try\<close> block (lines 56 to 68), started with \<^verbatim>\<open>reasons = []\<close>.\<close>

definition compute_reasons :: "NormalizedFeatures \<Rightarrow> jsval \<Rightarrow> thrown + string list" where
  "compute_reasons mapped pred =
     (if pred = JNum (Fin 0) then
        bindE (push_if (defined_and_lt (pace mapped) 70) ''Low pace'' []) (\<lambda>r1.
        bindE (push_if (defined_and_lt (shooting mapped) 65) ''Low shooting'' r1) (\<lambda>r2.
        bindE (push_if (defined_and_lt (passing mapped) 65) ''Low passing'' r2) (\<lambda>r3.
        bindE (push_if (defined_and_lt (defending mapped) 60) ''Low defending'' r3) (\<lambda>r4.
        bindE (push_if (defined_and_lt (physic mapped) 65) ''Low physicality'' r4) (\<lambda>r5.
        bindE (push_if (defined_and_lt (potential mapped) 50) ''Low potential'' r5) (\<lambda>r6.
        bindE (push_if (defined_and_lt (skill_moves mapped) 3) ''Low skill moves'' r6) (\<lambda>r7.
        bindE (push_if (defined_and_gt (age mapped) 34) ''Age may be high'' r7) (\<lambda>r8.
        bindE (push_if (mentions_fat (body_type mapped))
                 ''Body type may affect performance'' r8) (\<lambda>r9.
        Inr (if length r9 = 0 then r9 @ [fallback_reason] else r9))))))))))
      else Inr [])"

text \<open>The inner \<^verbatim>\<open>try\<close> with its \<^verbatim>\<open>catch\<close>, which sets \<^verbatim>\<open>reasons = []\<close>.\<close>

definition reasons :: "NormalizedFeatures \<Rightarrow> jsval \<Rightarrow> string list" where
  "reasons mapped pred =
     (case compute_reasons mapped pred of Inl e \<Rightarrow> [] | Inr rs \<Rightarrow> rs)"

subsection \<open>The handler\<close>

text \<open>
  What the handler does to the request: it sends a JSON body with a status, or an
  exception leaves the handler and nothing is sent.
\<close>

datatype reply = Reply nat jsval | NoReply thrown

text \<open>\<^verbatim>\<open>res.json({ prediction, message, reasons, overall_calculated: overall_calc })\<close>\<close>

definition success_reply :: "NormalizedFeatures \<Rightarrow> jsval \<Rightarrow> reply" where
  "success_reply mapped d =
     Reply 200 (JObj [(''prediction'', prediction d),
                      (''message'', message d),
                      (''reasons'', JArr (map JStr (reasons mapped (prediction d)))),
                      (''overall_calculated'', overall_calc d)])"

text \<open>The initial value of \<^verbatim>\<open>errorMsg\<close> (line 77).\<close>

definition generic_error :: string where
  "generic_error = ''Sorry, I'm having trouble thinking right now.''"

text \<open>
  The outer \<^verbatim>\<open>catch\<close> (lines 76 to 88). Only an error with \<^verbatim>\<open>error.response\<close> reads
  \<^verbatim>\<open>error.response.data.error\<close>, which raises when the data is \<^verbatim>\<open>null\<close> or
  \<^verbatim>\<open>undefined\<close>.
\<close>

fun catch_block :: "thrown \<Rightarrow> reply" where
  "catch_block (AxiosError (WithResponse status d)) =
     (case get_prop d ''error'' of
        Inl e \<Rightarrow> NoReply e
      | Inr v \<Rightarrow> Reply 500 (JObj [(''error'', js_or v (JStr generic_error))]))"
| "catch_block error = Reply 500 (JObj [(''error'', JStr generic_error)])"

text \<open>
  The handler. \<open>service\<close> stands for \<^verbatim>\<open>axios.post('http://127.0.0.1:5000/predict', mapped)\<close>:
  from the posted object to the data of the answer, or to the error of the rejection.
\<close>

definition predict_stats :: "(jsval \<Rightarrow> axios_error + jsval) \<Rightarrow> jsval \<Rightarrow> reply" where
  "predict_stats service playerData =
     (case bindE (normalize playerData) (\<lambda>mapped.
             case service (JObj (properties mapped)) of
               Inl err \<Rightarrow> Inl (AxiosError err)
             | Inr d \<Rightarrow> Inr (success_reply mapped d)) of
        Inl error \<Rightarrow> catch_block error
      | Inr r \<Rightarrow> r)"

section \<open>The specification's data model and reason catalogue\<close>

text \<open>
  A raw input of the specification: an object whose fields are numbers or strings (a
  field that is not there is absent).
\<close>

fun is_scalar :: "jsval \<Rightarrow> bool" where
  "is_scalar (JNum n) = True"
| "is_scalar (JStr s) = True"
| "is_scalar v = False"

fun scalar_input :: "jsval \<Rightarrow> bool" where
  "scalar_input (JObj kvs) = list_all (\<lambda>kv. is_scalar (snd kv)) kvs"
| "scalar_input v = False"

text \<open>
  The features as the specification types them: \<^verbatim>\<open>work_rate\<close>, \<^verbatim>\<open>body_type\<close> and
  \<^verbatim>\<open>player_traits\<close> are strings, the other nine fields are numbers.
\<close>

fun is_number :: "jsval \<Rightarrow> bool" where
  "is_number (JNum n) = True"
| "is_number v = False"

fun is_string :: "jsval \<Rightarrow> bool" where
  "is_string (JStr s) = True"
| "is_string v = False"

definition typed :: "NormalizedFeatures \<Rightarrow> bool" where
  "typed f =
     (is_number (age f) \<and> is_number (weight_kg f) \<and> is_number (potential f) \<and>
      is_number (skill_moves f) \<and> is_string (work_rate f) \<and> is_string (body_type f) \<and>
      is_number (pace f) \<and> is_number (shooting f) \<and> is_number (passing f) \<and>
      is_number (defending f) \<and> is_number (physic f) \<and> is_string (player_traits f))"

text \<open>
  The nine checks of the specification on typed features: a number below or above a
  threshold (never so for NaN), a string that contains \<^verbatim>\<open>fat\<close> in any letter case.
\<close>

fun number_below :: "jsval \<Rightarrow> int \<Rightarrow> bool" where
  "number_below (JNum n) k = num_lt (of_jsnum n) (Val (of_int k))"
| "number_below v k = False"

fun number_above :: "jsval \<Rightarrow> int \<Rightarrow> bool" where
  "number_above (JNum n) k = num_lt (Val (of_int k)) (of_jsnum n)"
| "number_above v k = False"

fun contains_fat :: "jsval \<Rightarrow> bool" where
  "contains_fat (JStr s) = sublist ''fat'' (toLowerCase s)"
| "contains_fat v = False"

text \<open>The catalogue, in the fixed order of the specification.\<close>

definition spec_checks :: "((NormalizedFeatures \<Rightarrow> bool) \<times> string) list" where
  "spec_checks =
     [(\<lambda>f. number_below (pace f) 70, ''Low pace''),
      (\<lambda>f. number_below (shooting f) 65, ''Low shooting''),
      (\<lambda>f. number_below (passing f) 65, ''Low passing''),
      (\<lambda>f. number_below (defending f) 60, ''Low defending''),
      (\<lambda>f. number_below (physic f) 65, ''Low physicality''),
      (\<lambda>f. number_below (potential f) 50, ''Low potential''),
      (\<lambda>f. number_below (skill_moves f) 3, ''Low skill moves''),
      (\<lambda>f. number_above (age f) 34, ''Age may be high''),
      (\<lambda>f. contains_fat (body_type f), ''Body type may affect performance'')]"

text \<open>The reasons of the checks that hold, in the order of the catalogue.\<close>

definition spec_reasons :: "NormalizedFeatures \<Rightarrow> string list" where
  "spec_reasons f = map snd (filter (\<lambda>c. fst c f) spec_checks)"

subsection \<open>Inputs of the examples\<close>

text \<open>A service that answers every request with the data \<open>d\<close>, and one that is unreachable.\<close>

definition answers :: "jsval \<Rightarrow> jsval \<Rightarrow> axios_error + jsval" where
  "answers d posted = Inr d"

definition unreachable :: "jsval \<Rightarrow> axios_error + jsval" where
  "unreachable posted = Inl NoResponse"

text \<open>The two feature records of the specification's examples.\<close>

definition weak_player :: NormalizedFeatures where
  "weak_player =
     \<lparr> age = JNum (Fin 36), weight_kg = JNum (Fin 0), potential = JNum (Fin 40),
       skill_moves = JNum (Fin 2), work_rate = JStr ''Unknown_Category'',
       body_type = JStr ''Fat (normal/lean)'', pace = JNum (Fin 60),
       shooting = JNum (Fin 60), passing = JNum (Fin 60), defending = JNum (Fin 50),
       physic = JNum (Fin 60), player_traits = JStr [] \<rparr>"

definition strong_player :: NormalizedFeatures where
  "strong_player =
     \<lparr> age = JNum (Fin 25), weight_kg = JNum (Fin 0), potential = JNum (Fin 90),
       skill_moves = JNum (Fin 5), work_rate = JStr ''Unknown_Category'',
       body_type = JStr ''Lean'', pace = JNum (Fin 90),
       shooting = JNum (Fin 90), passing = JNum (Fin 90), defending = JNum (Fin 90),
       physic = JNum (Fin 90), player_traits = JStr [] \<rparr>"

text \<open>
  The contributors of the estimated potential as the specification reads them: an absent
  field and the empty string count 0, an integer counts itself; \<open>nearest\<close> is the
  rounding of \<^verbatim>\<open>Math.round\<close> (a tie goes up; the specification leaves the tie open).
  Only integers of magnitude up to \<^verbatim>\<open>2^50\<close> are read as contributors: then every partial
  sum of six of them stays below \<^verbatim>\<open>2^53\<close>, where the additions of doubles and the
  division by 6 followed by \<^verbatim>\<open>Math.round\<close> give the exact results of the model. Any
  other value (a non-empty string above all) is no contributor in this reading.
\<close>

fun contribution :: "jsval \<Rightarrow> int option" where
  "contribution JUndefined = Some 0"
| "contribution (JStr s) = (if s = [] then Some 0 else None)"
| "contribution (JNum (Fin i)) = (if \<bar>i\<bar> \<le> 2 ^ 50 then Some i else None)"
| "contribution v = None"

definition nearest :: "rat \<Rightarrow> int" where
  "nearest q = \<lfloor>q + 1 / 2\<rfloor>"

text \<open>Raw inputs of the examples, and the features of the input with no field.\<close>

definition six_numbers :: jsval where
  "six_numbers =
     JObj [(''pace'', JNum (Fin 80)), (''shooting'', JNum (Fin 70)),
           (''passing'', JNum (Fin 60)), (''dribbling'', JNum (Fin 50)),
           (''defending'', JNum (Fin 40)), (''physic'', JNum (Fin 30))]"

definition dribbling_as_string :: jsval where
  "dribbling_as_string =
     JObj [(''pace'', JNum (Fin 80)), (''shooting'', JNum (Fin 70)),
           (''passing'', JNum (Fin 60)), (''dribbling'', JStr ''50''),
           (''defending'', JNum (Fin 40)), (''physic'', JNum (Fin 30))]"

definition empty_strings :: jsval where
  "empty_strings =
     JObj [(''age'', JStr []), (''work_rate'', JStr []), (''body_type'', JNum (Fin 0))]"

definition all_absent :: NormalizedFeatures where
  "all_absent =
     \<lparr> age = JNum (Fin 0), weight_kg = JNum (Fin 0), potential = JNum (Fin 0),
       skill_moves = JNum (Fin 0), work_rate = JStr ''Unknown_Category'',
       body_type = JStr ''Unknown_Category'', pace = JNum (Fin 0),
       shooting = JNum (Fin 0), passing = JNum (Fin 0), defending = JNum (Fin 0),
       physic = JNum (Fin 0), player_traits = JStr [] \<rparr>"

text \<open>A property of the body that was sent (\<^verbatim>\<open>undefined\<close> when nothing was sent).\<close>

fun reply_field :: "reply \<Rightarrow> string \<Rightarrow> jsval" where
  "reply_field (Reply status b) k = own_prop b k"
| "reply_field (NoReply e) k = JUndefined"

text \<open>Answers of the service, and a request body whose \<^verbatim>\<open>body_type\<close> cannot be converted.\<close>

definition full_answer :: jsval where
  "full_answer =
     JObj [(''prediction'', JNum (Fin 0)), (''message'', JStr ''Not eligible''),
           (''overall_calculated'', JNum (Fin 61))]"

definition empty_message :: jsval where
  "empty_message = JObj [(''prediction'', JNum (Fin 1)), (''message'', JStr [])]"

definition legacy_zero :: jsval where
  "legacy_zero = JObj [(''response'', JNum (Fin 0)), (''message'', JBool False)]"

definition ineligible :: jsval where
  "ineligible = JObj [(''prediction'', JNum (Fin 0))]"

definition odd_body_type :: jsval where
  "odd_body_type =
     JObj [(''potential'', JNum (Fin 50)), (''body_type'', JObj [(''toString'', JNull)])]"

section \<open>Basic facts\<close>

lemma bindE_Inr [simp]: "bindE (Inr x) f = f x"
  by (simp add: bindE_def)

lemma bindE_Inl [simp]: "bindE (Inl e) f = Inl e"
  by (simp add: bindE_def)

lemma bindE_eq_Inr: "bindE r f = Inr y \<longleftrightarrow> (\<exists>x. r = Inr x \<and> f x = Inr y)"
  by (cases r) simp_all

lemma get_prop_eq_Inr:
  "get_prop v k = Inr x \<longleftrightarrow> v \<noteq> JUndefined \<and> v \<noteq> JNull \<and> x = own_prop v k"
  by (cases v) auto

lemma push_if_Inr: "push_if (Inr b) r rs = Inr (rs @ (if b then [r] else []))"
  by (simp add: push_if_def)

lemma starts_with_prefix: "starts_with s t = prefix t s"
  by (induction s t rule: starts_with.induct) auto

lemma str_includes_sublist: "str_includes s t = sublist t s"
  by (induction s) (simp_all add: sublist_Cons_right starts_with_prefix)

text \<open>Evaluation of the model on literals.\<close>

lemmas string_eval =
  toLowerCase_def lower_char_def upper_letters_def lower_letters_def

lemmas number_eval =
  StringToNumber_def non_decimal_def signed_decimal_def trim_def is_ws_def
  unsigned_decimal_def all_digits_def is_digit_def digits_value_def digit_value_def
  scale10_def nat_digits.simps digit_char_def

lemmas check_eval =
  defined_and_lt_def defined_and_gt_def mentions_fat_def js_lt_def js_gt_def push_if_def

section \<open>The reasons\<close>

lemma defined_and_lt_number: "defined_and_lt (JNum n) k = Inr (number_below (JNum n) k)"
  by (simp add: defined_and_lt_def js_lt_def)

lemma defined_and_gt_number: "defined_and_gt (JNum n) k = Inr (number_above (JNum n) k)"
  by (simp add: defined_and_gt_def js_gt_def)

lemma mentions_fat_string: "mentions_fat (JStr s) = Inr (contains_fat (JStr s))"
  by (cases s) (simp_all add: mentions_fat_def str_includes_sublist toLowerCase_def)

lemma spec_reasons_unfold:
  "spec_reasons f =
     (if number_below (pace f) 70 then [''Low pace''] else []) @
     (if number_below (shooting f) 65 then [''Low shooting''] else []) @
     (if number_below (passing f) 65 then [''Low passing''] else []) @
     (if number_below (defending f) 60 then [''Low defending''] else []) @
     (if number_below (physic f) 65 then [''Low physicality''] else []) @
     (if number_below (potential f) 50 then [''Low potential''] else []) @
     (if number_below (skill_moves f) 3 then [''Low skill moves''] else []) @
     (if number_above (age f) 34 then [''Age may be high''] else []) @
     (if contains_fat (body_type f) then [''Body type may affect performance''] else [])"
  by (simp add: spec_reasons_def spec_checks_def)

lemma compute_reasons_typed:
  assumes "typed f"
  shows "compute_reasons f (JNum (Fin 0)) =
           Inr (if spec_reasons f = [] then [fallback_reason] else spec_reasons f)"
proof -
  obtain a b c d e p s g t where
    "pace f = JNum a" "shooting f = JNum b" "passing f = JNum c" "defending f = JNum d"
    "physic f = JNum e" "potential f = JNum p" "skill_moves f = JNum s" "age f = JNum g"
    "body_type f = JStr t"
    using assms unfolding typed_def
    by (metis is_number.elims(2) is_string.elims(2))
  then show ?thesis
    by (simp add: compute_reasons_def spec_reasons_unfold defined_and_lt_number
        defined_and_gt_number mentions_fat_string push_if_Inr
        del: number_below.simps number_above.simps contains_fat.simps)
qed

lemma typed_weak_player: "typed weak_player"
  by (simp add: typed_def weak_player_def)

lemma spec_reasons_weak_player:
  "spec_reasons weak_player =
     [''Low pace'', ''Low shooting'', ''Low passing'', ''Low defending'', ''Low physicality'',
      ''Low potential'', ''Low skill moves'', ''Age may be high'',
      ''Body type may affect performance'']"
  by (simp add: spec_reasons_unfold weak_player_def str_includes_sublist [symmetric]
      string_eval)

text \<open>
  Claim C1. On features typed as the specification types them, and with a prediction
  equal to 0, the list of reasons is made by the nine checks in their fixed order
  (pace below 70, shooting below 65, passing below 65, defending below 60, physic below
  65, potential below 50, skill moves below 3, age above 34, body type containing
  \<^verbatim>\<open>fat\<close> in any letter case): it holds the reason of every check that holds, in the
  order of the catalogue, several of them when several checks hold. (When no check
  holds the list is the fallback reason alone.)
\<close>

theorem reasons_follow_check_order:
  assumes "typed f"
  shows "reasons f (JNum (Fin 0)) =
           (if spec_reasons f = [] then [fallback_reason] else spec_reasons f)"
  using assms by (simp add: reasons_def compute_reasons_typed)

theorem reasons_follow_check_order_witness:
  "typed weak_player \<and>
   reasons weak_player (JNum (Fin 0)) =
     [''Low pace'', ''Low shooting'', ''Low passing'', ''Low defending'', ''Low physicality'',
      ''Low potential'', ''Low skill moves'', ''Age may be high'',
      ''Body type may affect performance'']"
  using reasons_follow_check_order [OF typed_weak_player]
  by (simp add: typed_weak_player spec_reasons_weak_player)

lemma strong_player_checks:
  "defined_and_lt (pace strong_player) 70 = Inr False"
  "defined_and_lt (shooting strong_player) 65 = Inr False"
  "defined_and_lt (passing strong_player) 65 = Inr False"
  "defined_and_lt (defending strong_player) 60 = Inr False"
  "defined_and_lt (physic strong_player) 65 = Inr False"
  "defined_and_lt (potential strong_player) 50 = Inr False"
  "defined_and_lt (skill_moves strong_player) 3 = Inr False"
  "defined_and_gt (age strong_player) 34 = Inr False"
  "mentions_fat (body_type strong_player) = Inr False"
  by (simp_all add: strong_player_def check_eval string_eval)

text \<open>
  Claim C4. When the prediction is 0 and none of the nine checks fires, the list of
  reasons has exactly one element, the fallback reason; so it is for the player of the
  specification's example (pace, shooting, passing, defending, physic and potential 90,
  skill moves 5, age 25, body type \<^verbatim>\<open>Lean\<close>).
\<close>

theorem fallback_when_no_check_fires:
  assumes "defined_and_lt (pace f) 70 = Inr False"
    and "defined_and_lt (shooting f) 65 = Inr False"
    and "defined_and_lt (passing f) 65 = Inr False"
    and "defined_and_lt (defending f) 60 = Inr False"
    and "defined_and_lt (physic f) 65 = Inr False"
    and "defined_and_lt (potential f) 50 = Inr False"
    and "defined_and_lt (skill_moves f) 3 = Inr False"
    and "defined_and_gt (age f) 34 = Inr False"
    and "mentions_fat (body_type f) = Inr False"
  shows "reasons f (JNum (Fin 0)) =
           [''No single weak area detected; overall stats may be below model threshold'']"
  using assms by (simp add: reasons_def compute_reasons_def push_if_def fallback_reason_def)

theorem fallback_when_no_check_fires_witness:
  "reasons strong_player (JNum (Fin 0)) =
     [''No single weak area detected; overall stats may be below model threshold'']
   \<and> length (reasons strong_player (JNum (Fin 0))) = 1"
  using fallback_when_no_check_fires [of strong_player]
  by (simp add: strong_player_checks)

section \<open>Normalization\<close>

lemma normalize_fields:
  assumes "normalize playerData = Inr m"
  shows "age m = if_defined (own_prop playerData ''age'') (JNum (Fin 0))"
    and "weight_kg m = if_defined (own_prop playerData ''weight_kg'')
                         (js_or (own_prop playerData ''weight'') (JNum (Fin 0)))"
    and "(if own_prop playerData ''potential'' \<noteq> JUndefined
            then Inr (own_prop playerData ''potential'')
            else estimate_potential playerData) = Inr (potential m)"
    and "skill_moves m = if_defined (own_prop playerData ''skill_moves'')
                           (if_defined (own_prop playerData ''dribbling'') (JNum (Fin 0)))"
    and "work_rate m = js_or (own_prop playerData ''work_rate'') (JStr ''Unknown_Category'')"
    and "body_type m = js_or (own_prop playerData ''body_type'') (JStr ''Unknown_Category'')"
    and "pace m = if_defined (own_prop playerData ''pace'') (JNum (Fin 0))"
    and "shooting m = if_defined (own_prop playerData ''shooting'') (JNum (Fin 0))"
    and "passing m = if_defined (own_prop playerData ''passing'') (JNum (Fin 0))"
    and "defending m = if_defined (own_prop playerData ''defending'') (JNum (Fin 0))"
    and "physic m = if_defined (own_prop playerData ''physic'') (JNum (Fin 0))"
    and "player_traits m = js_or (own_prop playerData ''player_traits'') (JStr [])"
  using assms unfolding normalize_def bindE_eq_Inr get_prop_eq_Inr
  by auto

text \<open>The estimate on numbers.\<close>

lemma contribution_or_zero: "contribution v = Some i \<Longrightarrow> js_or v (JNum (Fin 0)) = JNum (Fin i)"
  by (induction v rule: contribution.induct) (auto simp: js_or_def split: if_splits)

lemma js_add_numbers: "js_add (JNum (Fin a)) (JNum (Fin b)) = Inr (JNum (Fin (a + b)))"
  by (simp add: js_add_def add_prims_def)

lemma nearest_sixth: "nearest (of_int s / 6) = (s + 3) div 6"
proof -
  have "(of_int s :: rat) / 6 + 1 / 2 = of_int (s + 3) / of_int 6" by simp
  then show ?thesis
    unfolding nearest_def by (simp only: floor_divide_of_int_eq)
qed

lemma round_sixth: "Math_round (div_const (Val (of_int s)) 6) = Fin ((s + 3) div 6)"
  using nearest_sixth [of s] by (simp add: nearest_def)

lemma potential_of_numbers:
  assumes "contribution (own_prop playerData ''pace'') = Some a"
    and "contribution (own_prop playerData ''shooting'') = Some b"
    and "contribution (own_prop playerData ''passing'') = Some c"
    and "contribution (own_prop playerData ''dribbling'') = Some d"
    and "contribution (own_prop playerData ''defending'') = Some e"
    and "contribution (own_prop playerData ''physic'') = Some g"
  shows "estimate_potential playerData =
           Inr (JNum (Fin (nearest (of_int (a + b + c + d + e + g) / 6))))"
proof -
  note ops = assms [THEN contribution_or_zero]
  have r: "js_or (JNum (Fin r)) (JNum (Fin 0)) = JNum (Fin r)" for r
    by (simp add: js_or_def)
  show ?thesis
    unfolding estimate_potential_def ops
    by (simp add: js_add_numbers js_div_const_def r nearest_def)
qed

lemma own_prop_six_numbers:
  "own_prop six_numbers ''pace'' = JNum (Fin 80)"
  "own_prop six_numbers ''shooting'' = JNum (Fin 70)"
  "own_prop six_numbers ''passing'' = JNum (Fin 60)"
  "own_prop six_numbers ''dribbling'' = JNum (Fin 50)"
  "own_prop six_numbers ''defending'' = JNum (Fin 40)"
  "own_prop six_numbers ''physic'' = JNum (Fin 30)"
  "own_prop six_numbers ''potential'' = JUndefined"
  by (simp_all add: six_numbers_def)

lemma potential_six_numbers: "estimate_potential six_numbers = Inr (JNum (Fin 55))"
  using potential_of_numbers [of six_numbers 80 70 60 50 40 30] nearest_sixth [of 330]
  by (simp add: own_prop_six_numbers)

lemma normalize_six_numbers:
  "normalize six_numbers =
     Inr \<lparr> age = JNum (Fin 0), weight_kg = JNum (Fin 0), potential = JNum (Fin 55),
       skill_moves = JNum (Fin 50), work_rate = JStr ''Unknown_Category'',
       body_type = JStr ''Unknown_Category'', pace = JNum (Fin 80),
       shooting = JNum (Fin 70), passing = JNum (Fin 60), defending = JNum (Fin 40),
       physic = JNum (Fin 30), player_traits = JStr [] \<rparr>"
  by (simp add: normalize_def potential_six_numbers own_prop_six_numbers)
     (simp add: six_numbers_def if_defined_def js_or_def)

text \<open>
  Claim C2. With no \<^verbatim>\<open>potential\<close> the estimate is meant to be the rounded mean of the six
  contributors (so says the comment above line 30, and so it is on numbers: lemma
  \<open>potential_of_numbers\<close>, and 55 for the specification's example). The sum is built
  with \<^verbatim>\<open>+\<close>, which concatenates as soon as one contributor is a string: for
  \<^verbatim>\<open>{pace:80, shooting:70, passing:60, dribbling:"50", defending:40, physic:30}\<close> the
  sum is the string \<^verbatim>\<open>210504030\<close> and the estimate is 35084005, not 55.
\<close>

theorem potential_concatenates_string:
  "map_sum id potential (normalize dribbling_as_string) = Inr (JNum (Fin 35084005))"
proof -
  have "estimate_potential dribbling_as_string = Inr (JNum (Math_round (div_const (Val 210504030) 6)))"
    by (simp add: dribbling_as_string_def estimate_potential_def js_or_def js_add_def
        add_prims_def js_div_const_def number_eval)
  then have "estimate_potential dribbling_as_string = Inr (JNum (Fin 35084005))"
    using round_sixth [of 210504030] by simp
  then show ?thesis
    by (simp add: normalize_def) (simp add: dribbling_as_string_def)
qed

lemma normalize_empty_strings:
  "normalize empty_strings =
     Inr \<lparr> age = JStr [], weight_kg = JNum (Fin 0), potential = JNum (Fin 0),
       skill_moves = JNum (Fin 0), work_rate = JStr ''Unknown_Category'',
       body_type = JStr ''Unknown_Category'', pace = JNum (Fin 0),
       shooting = JNum (Fin 0), passing = JNum (Fin 0), defending = JNum (Fin 0),
       physic = JNum (Fin 0), player_traits = JStr [] \<rparr>"
proof -
  have "estimate_potential empty_strings = Inr (JNum (Fin 0))"
    using potential_of_numbers [of empty_strings 0 0 0 0 0 0] nearest_sixth [of 0]
    by (simp add: empty_strings_def)
  then show ?thesis
    by (simp add: normalize_def) (simp add: empty_strings_def if_defined_def js_or_def)
qed

lemma normalize_no_field: "normalize (JObj []) = Inr all_absent"
proof -
  have "estimate_potential (JObj []) = Inr (JNum (Fin 0))"
    using potential_of_numbers [of "JObj []" 0 0 0 0 0 0] nearest_sixth [of 0]
    by simp
  then show ?thesis
    by (simp add: normalize_def all_absent_def if_defined_def js_or_def)
qed

text \<open>
  The raw input \<^verbatim>\<open>{age: "", work_rate: "", body_type: 0}\<close> does not normalize to
  \<^verbatim>\<open>age = 0\<close>: the empty string is not \<^verbatim>\<open>undefined\<close>, and it is kept.
\<close>

theorem empty_age_is_kept:
  "map_sum id age (normalize empty_strings) \<noteq> Inr (JNum (Fin 0))"
  by (simp add: normalize_empty_strings)

text \<open>
  Claim C3, amended. The default or derivation rule of a field is applied when the
  field of the raw input is absent: 0 for \<^verbatim>\<open>age\<close>, \<^verbatim>\<open>pace\<close>, \<^verbatim>\<open>shooting\<close>,
  \<^verbatim>\<open>passing\<close>, \<^verbatim>\<open>defending\<close> and \<^verbatim>\<open>physic\<close>; the legacy \<^verbatim>\<open>weight\<close> when it is truthy,
  else 0, for \<^verbatim>\<open>weight_kg\<close>; \<^verbatim>\<open>dribbling\<close> when it is present, else 0, for
  \<^verbatim>\<open>skill_moves\<close>; \<^verbatim>\<open>Unknown_Category\<close> for \<^verbatim>\<open>work_rate\<close> and \<^verbatim>\<open>body_type\<close>; the
  empty string for \<^verbatim>\<open>player_traits\<close>; and for \<^verbatim>\<open>potential\<close>, when each of the six
  contributors is absent, the empty string or an integer, the rounded mean of the six
  (an absent or empty contributor counting 0). Nothing is said of \<^verbatim>\<open>potential\<close> when a
  contributor is a non-empty string. For the empty string the rule is applied to
  \<^verbatim>\<open>work_rate\<close>, \<^verbatim>\<open>body_type\<close> and \<^verbatim>\<open>player_traits\<close> only (the fields defaulted
  with \<^verbatim>\<open>||\<close>); \<^verbatim>\<open>age\<close>, \<^verbatim>\<open>weight_kg\<close>, \<^verbatim>\<open>potential\<close>, \<^verbatim>\<open>skill_moves\<close>, \<^verbatim>\<open>pace\<close>,
  \<^verbatim>\<open>shooting\<close>, \<^verbatim>\<open>passing\<close>, \<^verbatim>\<open>defending\<close> and \<^verbatim>\<open>physic\<close> keep the empty string.
\<close>

theorem defaults_for_absent_and_empty:
  assumes "normalize playerData = Inr m"
  shows "(own_prop playerData ''age'' = JUndefined \<longrightarrow> age m = JNum (Fin 0)) \<and>
         (own_prop playerData ''weight_kg'' = JUndefined \<longrightarrow>
            weight_kg m = (if ToBoolean (own_prop playerData ''weight'')
                           then own_prop playerData ''weight'' else JNum (Fin 0))) \<and>
         (own_prop playerData ''potential'' = JUndefined \<and>
          contribution (own_prop playerData ''pace'') = Some a \<and>
          contribution (own_prop playerData ''shooting'') = Some b \<and>
          contribution (own_prop playerData ''passing'') = Some c \<and>
          contribution (own_prop playerData ''dribbling'') = Some d \<and>
          contribution (own_prop playerData ''defending'') = Some e \<and>
          contribution (own_prop playerData ''physic'') = Some g \<longrightarrow>
            potential m = JNum (Fin (nearest (of_int (a + b + c + d + e + g) / 6)))) \<and>
         (own_prop playerData ''skill_moves'' = JUndefined \<longrightarrow>
            skill_moves m = (if own_prop playerData ''dribbling'' \<noteq> JUndefined
                             then own_prop playerData ''dribbling'' else JNum (Fin 0))) \<and>
         (own_prop playerData ''work_rate'' = JUndefined \<longrightarrow>
            work_rate m = JStr ''Unknown_Category'') \<and>
         (own_prop playerData ''body_type'' = JUndefined \<longrightarrow>
            body_type m = JStr ''Unknown_Category'') \<and>
         (own_prop playerData ''pace'' = JUndefined \<longrightarrow> pace m = JNum (Fin 0)) \<and>
         (own_prop playerData ''shooting'' = JUndefined \<longrightarrow> shooting m = JNum (Fin 0)) \<and>
         (own_prop playerData ''passing'' = JUndefined \<longrightarrow> passing m = JNum (Fin 0)) \<and>
         (own_prop playerData ''defending'' = JUndefined \<longrightarrow> defending m = JNum (Fin 0)) \<and>
         (own_prop playerData ''physic'' = JUndefined \<longrightarrow> physic m = JNum (Fin 0)) \<and>
         (own_prop playerData ''player_traits'' = JUndefined \<longrightarrow> player_traits m = JStr []) \<and>
         (own_prop playerData ''work_rate'' = JStr [] \<longrightarrow>
            work_rate m = JStr ''Unknown_Category'') \<and>
         (own_prop playerData ''body_type'' = JStr [] \<longrightarrow>
            body_type m = JStr ''Unknown_Category'') \<and>
         (own_prop playerData ''player_traits'' = JStr [] \<longrightarrow> player_traits m = JStr []) \<and>
         (own_prop playerData ''age'' = JStr [] \<longrightarrow> age m = JStr []) \<and>
         (own_prop playerData ''weight_kg'' = JStr [] \<longrightarrow> weight_kg m = JStr []) \<and>
         (own_prop playerData ''potential'' = JStr [] \<longrightarrow> potential m = JStr []) \<and>
         (own_prop playerData ''skill_moves'' = JStr [] \<longrightarrow> skill_moves m = JStr []) \<and>
         (own_prop playerData ''pace'' = JStr [] \<longrightarrow> pace m = JStr []) \<and>
         (own_prop playerData ''shooting'' = JStr [] \<longrightarrow> shooting m = JStr []) \<and>
         (own_prop playerData ''passing'' = JStr [] \<longrightarrow> passing m = JStr []) \<and>
         (own_prop playerData ''defending'' = JStr [] \<longrightarrow> defending m = JStr []) \<and>
         (own_prop playerData ''physic'' = JStr [] \<longrightarrow> physic m = JStr [])"
proof -
  note f = normalize_fields [OF assms]
  have "own_prop playerData ''potential'' = JUndefined \<and>
          contribution (own_prop playerData ''pace'') = Some a \<and>
          contribution (own_prop playerData ''shooting'') = Some b \<and>
          contribution (own_prop playerData ''passing'') = Some c \<and>
          contribution (own_prop playerData ''dribbling'') = Some d \<and>
          contribution (own_prop playerData ''defending'') = Some e \<and>
          contribution (own_prop playerData ''physic'') = Some g \<longrightarrow>
            potential m = JNum (Fin (nearest (of_int (a + b + c + d + e + g) / 6)))"
  proof (intro impI, elim conjE)
    assume absent: "own_prop playerData ''potential'' = JUndefined"
      and c: "contribution (own_prop playerData ''pace'') = Some a"
        "contribution (own_prop playerData ''shooting'') = Some b"
        "contribution (own_prop playerData ''passing'') = Some c"
        "contribution (own_prop playerData ''dribbling'') = Some d"
        "contribution (own_prop playerData ''defending'') = Some e"
        "contribution (own_prop playerData ''physic'') = Some g"
    have "estimate_potential playerData = Inr (potential m)"
      using f(3) absent by simp
    with potential_of_numbers [OF c]
    show "potential m = JNum (Fin (nearest (of_int (a + b + c + d + e + g) / 6)))"
      by simp
  qed
  moreover have "own_prop playerData ''potential'' = JStr [] \<longrightarrow> potential m = JStr []"
    using f(3) by (auto split: if_splits)
  ultimately show ?thesis
    by (simp add: f(1,2) f(4-12) if_defined_def js_or_def)
qed

theorem defaults_for_absent_and_empty_witness:
  "normalize empty_strings = Inr (all_absent \<lparr> age := JStr [] \<rparr>) \<and>
   own_prop empty_strings ''age'' = JStr [] \<and> age (all_absent \<lparr> age := JStr [] \<rparr>) = JStr [] \<and>
   own_prop empty_strings ''work_rate'' = JStr [] \<and>
   work_rate (all_absent \<lparr> age := JStr [] \<rparr>) = JStr ''Unknown_Category'' \<and>
   own_prop empty_strings ''pace'' = JUndefined \<and>
   pace (all_absent \<lparr> age := JStr [] \<rparr>) = JNum (Fin 0) \<and>
   normalize six_numbers = Inr (all_absent \<lparr> potential := JNum (Fin 55),
     skill_moves := JNum (Fin 50), pace := JNum (Fin 80), shooting := JNum (Fin 70),
     passing := JNum (Fin 60), defending := JNum (Fin 40), physic := JNum (Fin 30) \<rparr>) \<and>
   own_prop six_numbers ''potential'' = JUndefined \<and>
   contribution (own_prop six_numbers ''pace'') = Some 80 \<and>
   contribution (own_prop six_numbers ''shooting'') = Some 70 \<and>
   contribution (own_prop six_numbers ''passing'') = Some 60 \<and>
   contribution (own_prop six_numbers ''dribbling'') = Some 50 \<and>
   contribution (own_prop six_numbers ''defending'') = Some 40 \<and>
   contribution (own_prop six_numbers ''physic'') = Some 30 \<and>
   nearest (of_int (80 + 70 + 60 + 50 + 40 + 30) / 6) = 55"
proof -
  have n: "normalize empty_strings = Inr (all_absent \<lparr> age := JStr [] \<rparr>)"
    by (simp add: normalize_empty_strings all_absent_def)
  have k: "normalize six_numbers = Inr (all_absent \<lparr> potential := JNum (Fin 55),
     skill_moves := JNum (Fin 50), pace := JNum (Fin 80), shooting := JNum (Fin 70),
     passing := JNum (Fin 60), defending := JNum (Fin 40), physic := JNum (Fin 30) \<rparr>)"
    by (simp add: normalize_six_numbers all_absent_def)
  have r: "nearest (of_int (80 + 70 + 60 + 50 + 40 + 30) / 6) = 55"
    using nearest_sixth [of 330] by simp
  show ?thesis
    using defaults_for_absent_and_empty [OF n]
      defaults_for_absent_and_empty
        [OF k, where a = 80 and b = 70 and c = 60 and d = 50 and e = 40 and g = 30]
    by (simp add: n k r own_prop_six_numbers) (simp add: empty_strings_def)
qed

lemma scalar_own_prop:
  assumes "scalar_input playerData"
  shows "own_prop playerData k = JUndefined \<or> is_scalar (own_prop playerData k)"
proof (cases playerData)
  case (JObj kvs)
  show ?thesis
  proof (cases "map_of kvs k")
    case None
    with JObj show ?thesis by simp
  next
    case (Some v)
    then have "(k, v) \<in> set kvs" by (rule map_of_SomeD)
    with assms JObj have "is_scalar v" by (auto simp: list_all_iff)
    with JObj Some show ?thesis by simp
  qed
qed (use assms in simp_all)

lemma is_scalar_cases: "is_scalar v \<longleftrightarrow> (\<exists>n. v = JNum n) \<or> (\<exists>s. v = JStr s)"
  by (cases v) simp_all

lemma scalar_if_defined:
  "v = JUndefined \<or> is_scalar v \<Longrightarrow> is_scalar d \<Longrightarrow> is_scalar (if_defined v d)"
  by (auto simp: if_defined_def)

lemma scalar_js_or:
  "v = JUndefined \<or> is_scalar v \<Longrightarrow> is_scalar d \<Longrightarrow> is_scalar (js_or v d)"
  by (auto simp: js_or_def)

lemma scalar_ToPrimitive: "is_scalar v \<Longrightarrow> \<exists>p. ToPrimitive v = Inr p"
  by (auto simp: is_scalar_cases)

lemma js_add_scalar:
  assumes "is_scalar a" and "is_scalar b"
  shows "\<exists>v. js_add a b = Inr v \<and> is_scalar v"
  using assms
  by (auto simp: is_scalar_cases js_add_def add_prims_def)

lemma estimate_potential_scalar:
  assumes "scalar_input playerData"
  shows "\<exists>n. estimate_potential playerData = Inr (JNum n)"
proof -
  have c: "is_scalar (js_or (own_prop playerData k) (JNum (Fin 0)))" for k
    using scalar_own_prop [OF assms, of k] by (simp add: scalar_js_or)
  obtain s1 where s1: "js_add (js_or (own_prop playerData ''pace'') (JNum (Fin 0)))
      (js_or (own_prop playerData ''shooting'') (JNum (Fin 0))) = Inr s1" "is_scalar s1"
    using js_add_scalar [OF c c] by blast
  obtain s2 where s2: "js_add s1 (js_or (own_prop playerData ''passing'') (JNum (Fin 0))) = Inr s2"
      "is_scalar s2"
    using js_add_scalar [OF s1(2) c] by blast
  obtain s3 where s3: "js_add s2 (js_or (own_prop playerData ''dribbling'') (JNum (Fin 0))) = Inr s3"
      "is_scalar s3"
    using js_add_scalar [OF s2(2) c] by blast
  obtain s4 where s4: "js_add s3 (js_or (own_prop playerData ''defending'') (JNum (Fin 0))) = Inr s4"
      "is_scalar s4"
    using js_add_scalar [OF s3(2) c] by blast
  obtain s5 where s5: "js_add s4 (js_or (own_prop playerData ''physic'') (JNum (Fin 0))) = Inr s5"
      "is_scalar s5"
    using js_add_scalar [OF s4(2) c] by blast
  obtain p where p: "ToPrimitive s5 = Inr p"
    using scalar_ToPrimitive [OF s5(2)] by blast
  have r: "\<exists>n. js_or (JNum x) (JNum (Fin 0)) = JNum n" for x
    by (simp add: js_or_def)
  show ?thesis
    by (simp add: estimate_potential_def s1 s2 s3 s4 s5 js_div_const_def p r)
qed

lemma scalar_defined: "is_scalar v \<Longrightarrow> v \<noteq> JUndefined \<and> v \<noteq> JNull"
  by (cases v) simp_all

text \<open>
  Claim C8, amended. On every raw input whose fields are strings or numbers,
  \<open>normalize\<close> returns features (it raises nothing), and each of their twelve
  fields (twelve, not thirteen) is present and not null.
\<close>

theorem normalize_total_on_scalars:
  assumes "scalar_input playerData"
  shows "\<exists>m. normalize playerData = Inr m \<and> length (properties m) = 12 \<and>
             list_all (\<lambda>kv. snd kv \<noteq> JUndefined \<and> snd kv \<noteq> JNull) (properties m)"
proof -
  have u: "own_prop playerData k = JUndefined \<or> is_scalar (own_prop playerData k)" for k
    by (rule scalar_own_prop [OF assms])
  obtain kvs where obj: "playerData = JObj kvs"
    using assms by (cases playerData) simp_all
  obtain n where est: "estimate_potential playerData = Inr (JNum n)"
    using estimate_potential_scalar [OF assms] by blast
  define p where "p = (if own_prop playerData ''potential'' \<noteq> JUndefined
     then own_prop playerData ''potential'' else JNum n)"
  have p: "is_scalar p"
    using u [of "''potential''"] by (auto simp: p_def)
  define m where "m = \<lparr> age = if_defined (own_prop playerData ''age'') (JNum (Fin 0)),
           weight_kg = if_defined (own_prop playerData ''weight_kg'')
                         (js_or (own_prop playerData ''weight'') (JNum (Fin 0))),
           potential = p,
           skill_moves = if_defined (own_prop playerData ''skill_moves'')
                           (if_defined (own_prop playerData ''dribbling'') (JNum (Fin 0))),
           work_rate = js_or (own_prop playerData ''work_rate'') (JStr ''Unknown_Category''),
           body_type = js_or (own_prop playerData ''body_type'') (JStr ''Unknown_Category''),
           pace = if_defined (own_prop playerData ''pace'') (JNum (Fin 0)),
           shooting = if_defined (own_prop playerData ''shooting'') (JNum (Fin 0)),
           passing = if_defined (own_prop playerData ''passing'') (JNum (Fin 0)),
           defending = if_defined (own_prop playerData ''defending'') (JNum (Fin 0)),
           physic = if_defined (own_prop playerData ''physic'') (JNum (Fin 0)),
           player_traits = js_or (own_prop playerData ''player_traits'') (JStr []) \<rparr>"
  have n: "normalize playerData = Inr m"
    unfolding normalize_def m_def p_def using est obj by simp
  have "list_all (\<lambda>kv. is_scalar (snd kv)) (properties m)"
    by (simp add: properties_def m_def p u scalar_if_defined scalar_js_or)
  then have "list_all (\<lambda>kv. snd kv \<noteq> JUndefined \<and> snd kv \<noteq> JNull) (properties m)"
    by (simp add: list_all_iff scalar_defined)
  moreover have "length (properties m) = 12"
    by (simp add: properties_def)
  ultimately show ?thesis
    using n by blast
qed

theorem normalize_total_on_scalars_witness:
  "scalar_input six_numbers \<and>
   (\<exists>m. normalize six_numbers = Inr m \<and> length (properties m) = 12 \<and>
        list_all (\<lambda>kv. snd kv \<noteq> JUndefined \<and> snd kv \<noteq> JNull) (properties m))"
proof -
  have s: "scalar_input six_numbers"
    by (simp add: six_numbers_def)
  show ?thesis
    using normalize_total_on_scalars [OF s] s by simp
qed

text \<open>The features have twelve fields, here for the input with no field at all.\<close>

theorem not_thirteen_fields:
  "normalize (JObj []) = Inr all_absent \<and> length (properties all_absent) \<noteq> 13"
  by (simp add: normalize_no_field properties_def)



section \<open>The relay\<close>

lemma own_prop_pythonData: "own_prop (pythonData d) k = own_prop d k"
  by (cases d) (simp_all add: pythonData_def)

lemma predict_stats_answered:
  assumes "normalize playerData = Inr mapped"
    and "service (JObj (properties mapped)) = Inr d"
  shows "predict_stats service playerData = success_reply mapped d"
  using assms by (simp add: predict_stats_def)

lemma predict_stats_rejected:
  assumes "normalize playerData = Inr mapped"
    and "service (JObj (properties mapped)) = Inl err"
  shows "predict_stats service playerData = catch_block (AxiosError err)"
  using assms by (simp add: predict_stats_def)

lemma reasons_all_absent:
  "reasons all_absent (JNum (Fin 0)) =
     [''Low pace'', ''Low shooting'', ''Low passing'', ''Low defending'', ''Low physicality'',
      ''Low potential'', ''Low skill moves'']"
  by (simp add: reasons_def compute_reasons_def all_absent_def check_eval string_eval)

text \<open>
  Claim C5, amended. When the service answers, the reply has status 200 and carries:
  as \<^verbatim>\<open>prediction\<close> the service's \<^verbatim>\<open>prediction\<close> when it is present, else the legacy
  \<^verbatim>\<open>response\<close> when that is truthy, and \<^verbatim>\<open>null\<close> when both are absent; as
  \<^verbatim>\<open>message\<close> the service's \<^verbatim>\<open>message\<close> when it is truthy, else \<^verbatim>\<open>null\<close> (so also for
  a message that is present and falsy); as \<^verbatim>\<open>overall_calculated\<close> the service's when
  it is present, else \<^verbatim>\<open>null\<close>; and the reasons computed for that prediction.
\<close>

theorem relay_extracts_fields:
  assumes "normalize playerData = Inr mapped"
    and "service (JObj (properties mapped)) = Inr d"
  shows "predict_stats service playerData =
           Reply 200 (JObj
             [(''prediction'', prediction d),
              (''message'',
                 if ToBoolean (own_prop d ''message'') then own_prop d ''message'' else JNull),
              (''reasons'', JArr (map JStr (reasons mapped (prediction d)))),
              (''overall_calculated'',
                 if own_prop d ''overall_calculated'' \<noteq> JUndefined
                 then own_prop d ''overall_calculated'' else JNull)]) \<and>
         (own_prop d ''prediction'' \<noteq> JUndefined \<longrightarrow>
            prediction d = own_prop d ''prediction'') \<and>
         (own_prop d ''prediction'' = JUndefined \<and> ToBoolean (own_prop d ''response'') \<longrightarrow>
            prediction d = own_prop d ''response'') \<and>
         (own_prop d ''prediction'' = JUndefined \<and> own_prop d ''response'' = JUndefined \<longrightarrow>
            prediction d = JNull)"
  by (simp add: predict_stats_answered [where service = service, OF assms] success_reply_def
      prediction_def message_def overall_calc_def own_prop_pythonData js_or_def if_defined_def)

theorem relay_extracts_fields_witness:
  "normalize (JObj []) = Inr all_absent \<and>
   answers full_answer (JObj (properties all_absent)) = Inr full_answer \<and>
   predict_stats (answers full_answer) (JObj []) =
     Reply 200 (JObj
       [(''prediction'', JNum (Fin 0)),
        (''message'', JStr ''Not eligible''),
        (''reasons'', JArr [JStr ''Low pace'', JStr ''Low shooting'', JStr ''Low passing'',
           JStr ''Low defending'', JStr ''Low physicality'', JStr ''Low potential'',
           JStr ''Low skill moves'']),
        (''overall_calculated'', JNum (Fin 61))])"
proof -
  have a: "answers full_answer (JObj (properties all_absent)) = Inr full_answer"
    by (simp add: answers_def)
  have p: "prediction full_answer = JNum (Fin 0)"
    by (simp add: prediction_def pythonData_def full_answer_def)
  show ?thesis
    using relay_extracts_fields [where service = "answers full_answer", OF normalize_no_field a]
    by (simp add: normalize_no_field a p reasons_all_absent) (simp add: full_answer_def)
qed

text \<open>
  A service answer with the message \<^verbatim>\<open>""\<close>: the message is present in the answer,
  and the reply carries \<^verbatim>\<open>null\<close> in its place.
\<close>

theorem empty_message_becomes_null:
  "own_prop empty_message ''message'' = JStr [] \<and>
   reply_field (predict_stats (answers empty_message) (JObj [])) ''message'' = JNull"
proof -
  have a: "answers empty_message (JObj (properties all_absent)) = Inr empty_message"
    by (simp add: answers_def)
  have m: "own_prop empty_message ''message'' = JStr []"
    by (simp add: empty_message_def)
  have "predict_stats (answers empty_message) (JObj []) = success_reply all_absent empty_message"
    using normalize_no_field a by (rule predict_stats_answered)
  then show ?thesis
    by (simp add: m success_reply_def message_def own_prop_pythonData js_or_def)
qed

text \<open>
  Claim C9. When the service's \<^verbatim>\<open>message\<close> is present and falsy (the empty string, 0
  or \<^verbatim>\<open>false\<close>) the reply's \<^verbatim>\<open>message\<close> is \<^verbatim>\<open>null\<close>; when \<^verbatim>\<open>prediction\<close> is absent
  and the legacy \<^verbatim>\<open>response\<close> is 0 the reply's \<^verbatim>\<open>prediction\<close> is \<^verbatim>\<open>null\<close>, not 0.
\<close>

theorem falsy_fields_become_null:
  assumes "normalize playerData = Inr mapped"
    and "service (JObj (properties mapped)) = Inr d"
  shows "(own_prop d ''message'' \<in> set [JStr [], JNum (Fin 0), JBool False] \<longrightarrow>
            reply_field (predict_stats service playerData) ''message'' = JNull) \<and>
         (own_prop d ''prediction'' = JUndefined \<and> own_prop d ''response'' = JNum (Fin 0) \<longrightarrow>
            reply_field (predict_stats service playerData) ''prediction'' = JNull)"
  by (auto simp: predict_stats_answered [where service = service, OF assms] success_reply_def prediction_def
      message_def own_prop_pythonData js_or_def)

theorem falsy_fields_become_null_witness:
  "normalize (JObj []) = Inr all_absent \<and>
   answers legacy_zero (JObj (properties all_absent)) = Inr legacy_zero \<and>
   own_prop legacy_zero ''message'' = JBool False \<and>
   own_prop legacy_zero ''prediction'' = JUndefined \<and>
   own_prop legacy_zero ''response'' = JNum (Fin 0) \<and>
   reply_field (predict_stats (answers legacy_zero) (JObj [])) ''message'' = JNull \<and>
   reply_field (predict_stats (answers legacy_zero) (JObj [])) ''prediction'' = JNull"
proof -
  have a: "answers legacy_zero (JObj (properties all_absent)) = Inr legacy_zero"
    by (simp add: answers_def)
  have l: "own_prop legacy_zero ''message'' = JBool False"
    "own_prop legacy_zero ''prediction'' = JUndefined"
    "own_prop legacy_zero ''response'' = JNum (Fin 0)"
    by (simp_all add: legacy_zero_def)
  show ?thesis
    using falsy_fields_become_null [where service = "answers legacy_zero", OF normalize_no_field a]
    by (simp add: normalize_no_field a l)
qed

lemma normalize_odd_body_type:
  "normalize odd_body_type =
     Inr (all_absent \<lparr> potential := JNum (Fin 50),
                       body_type := JObj [(''toString'', JNull)] \<rparr>)"
  by (simp add: normalize_def odd_body_type_def all_absent_def if_defined_def js_or_def)

lemma compute_reasons_odd_body_type:
  "compute_reasons (all_absent \<lparr> potential := JNum (Fin 50),
       body_type := JObj [(''toString'', JNull)] \<rparr>) (JNum (Fin 0)) = Inl TypeError"
  by (simp add: compute_reasons_def all_absent_def check_eval)

text \<open>
  Claim C6. When the service answers, the handler always sends the success reply
  (status 200, nothing escapes the handler); and when the computation of the reasons
  raises, the reply carries the empty list of reasons.
\<close>

theorem reason_faults_are_swallowed:
  assumes "normalize playerData = Inr mapped"
    and "service (JObj (properties mapped)) = Inr d"
  shows "predict_stats service playerData =
           Reply 200 (JObj [(''prediction'', prediction d), (''message'', message d),
                            (''reasons'', JArr (map JStr (reasons mapped (prediction d)))),
                            (''overall_calculated'', overall_calc d)]) \<and>
         (compute_reasons mapped (prediction d) = Inl e \<longrightarrow>
            reasons mapped (prediction d) = [])"
  by (simp add: predict_stats_answered [where service = service, OF assms] success_reply_def reasons_def)

theorem reason_faults_are_swallowed_witness:
  "normalize odd_body_type =
     Inr (all_absent \<lparr> potential := JNum (Fin 50),
                       body_type := JObj [(''toString'', JNull)] \<rparr>) \<and>
   compute_reasons (all_absent \<lparr> potential := JNum (Fin 50),
       body_type := JObj [(''toString'', JNull)] \<rparr>) (prediction ineligible) = Inl TypeError \<and>
   predict_stats (answers ineligible) odd_body_type =
     Reply 200 (JObj [(''prediction'', JNum (Fin 0)), (''message'', JNull),
                      (''reasons'', JArr []), (''overall_calculated'', JNull)])"
proof -
  have a: "answers ineligible (JObj (properties (all_absent \<lparr> potential := JNum (Fin 50),
                       body_type := JObj [(''toString'', JNull)] \<rparr>))) = Inr ineligible"
    by (simp add: answers_def)
  have p: "prediction ineligible = JNum (Fin 0)" "message ineligible = JNull"
    "overall_calc ineligible = JNull"
    by (simp_all add: prediction_def message_def overall_calc_def pythonData_def
        ineligible_def js_or_def if_defined_def)
  show ?thesis
    using reason_faults_are_swallowed [where service = "answers ineligible" and e = TypeError, OF normalize_odd_body_type a]
    by (simp add: normalize_odd_body_type p compute_reasons_odd_body_type)
qed

text \<open>
  Claim C7. When the call to the service fails with no response received, the handler
  replies with status 500 and the body \<^verbatim>\<open>{ error: ... }\<close> whose message is the fixed
  string of the source, whatever the request and the connection were.
\<close>

theorem unreachable_service_generic_error:
  assumes "normalize playerData = Inr mapped"
    and "service (JObj (properties mapped)) = Inl NoResponse"
  shows "predict_stats service playerData =
           Reply 500 (JObj [(''error'', JStr ''Sorry, I'm having trouble thinking right now.'')])"
  by (simp add: predict_stats_rejected [where service = service, OF assms] generic_error_def)

theorem unreachable_service_generic_error_witness:
  "normalize (JObj []) = Inr all_absent \<and>
   unreachable (JObj (properties all_absent)) = Inl NoResponse \<and>
   predict_stats unreachable (JObj []) =
     Reply 500 (JObj [(''error'', JStr ''Sorry, I'm having trouble thinking right now.'')])"
proof -
  have u: "unreachable (JObj (properties all_absent)) = Inl NoResponse"
    by (simp add: unreachable_def)
  show ?thesis
    using unreachable_service_generic_error [where service = unreachable, OF normalize_no_field u]
    by (simp add: normalize_no_field u)
qed

end
